theory Spec2Isabelle
  imports Complex_Main "HOL-Library.Sublist" "HOL-Library.Log_Nat"
begin

section \<open>The notebooks as data\<close>

text \<open>
  The repository is a Jupyter book: five notebooks, each a list of cells. A code cell holds
  Python statements, and almost all a statement does is to call into a library. The model
  keeps, for every code cell, its statements in order and, for every statement, the library
  operations its expressions invoke, in the order the source text names them: the argument
  values (keywords, literals, variable names, attribute reads) are left out.
\<close>

text \<open>
  The library an operation belongs to: the seven packages the notebooks import, numpy
  (reached through \<^verbatim>\<open>.values\<close> of an xarray coordinate, never imported) and Python's own
  built-in functions and list and number operations.
\<close>

datatype library =
  Pygmt | Geopandas | Xarray | Pandas | Laspy | Rioxarray | Panel | Numpy | Builtin

text \<open>
  An operation an expression invokes: a call \<^verbatim>\<open>f(...)\<close>, a subscript \<^verbatim>\<open>obj[...]\<close> or an
  operator applied to an object, with the library that implements it and the qualified
  name of the function, method or class (\<^verbatim>\<open>fig.coast\<close> is the method \<^verbatim>\<open>Figure.coast\<close> of
  pygmt, since \<^verbatim>\<open>fig = pygmt.Figure()\<close>).
\<close>

datatype use =
  Call library string
| Subscript library string
| Operator library string

text \<open>
  The statements of Python and of IPython (a line starting with \<^verbatim>\<open>!\<close> runs a shell
  command, a line starting with \<^verbatim>\<open>%\<close> is a magic command). A statement carries the
  operations of its own expressions, and a compound statement its body. An assignment of a
  literal and an expression statement that only names a variable (the notebook then
  displays it) invoke nothing. The target of \<open>Assign\<close> is a variable, that of \<open>SetItem\<close> a
  subscript \<^verbatim>\<open>var[key]\<close>.
\<close>

datatype stmt =
  Import string
| Assign string "use list"
| SetItem string "use list"
| Expr "use list"
| Return "use list"
| Raise "use list"
| Assert "use list"
| For string "use list" "stmt list"
| While "use list" "stmt list"
| If "use list" "stmt list" "stmt list"
| With "use list" "stmt list"
| Try "stmt list" "stmt list" "stmt list"
| Def string "use list" "stmt list"
| Shell string
| Magic string

fun library_of :: "use \<Rightarrow> library" where
  "library_of (Call l n) = l"
| "library_of (Subscript l n) = l"
| "library_of (Operator l n) = l"

text \<open>All operations of a statement, those of the statements nested in it included.\<close>

fun stmt_uses :: "stmt \<Rightarrow> use list" where
  "stmt_uses (Import m) = []"
| "stmt_uses (Assign v us) = us"
| "stmt_uses (SetItem v us) = us"
| "stmt_uses (Expr us) = us"
| "stmt_uses (Return us) = us"
| "stmt_uses (Raise us) = us"
| "stmt_uses (Assert us) = us"
| "stmt_uses (For v us body) = us @ concat (map stmt_uses body)"
| "stmt_uses (While us body) = us @ concat (map stmt_uses body)"
| "stmt_uses (If us body orelse) =
     us @ concat (map stmt_uses body) @ concat (map stmt_uses orelse)"
| "stmt_uses (With us body) = us @ concat (map stmt_uses body)"
| "stmt_uses (Try body handlers final) =
     concat (map stmt_uses body) @ concat (map stmt_uses handlers)
       @ concat (map stmt_uses final)"
| "stmt_uses (Def f us body) = us @ concat (map stmt_uses body)"
| "stmt_uses (Shell c) = []"
| "stmt_uses (Magic c) = []"

definition uses_of :: "stmt list \<Rightarrow> use list" where
  "uses_of cell = concat (map stmt_uses cell)"

subsection \<open>The notebook book/first-figure.ipynb (anatomy of a PyGMT figure)\<close>

text \<open>
  The file \<^verbatim>\<open>book/first-figure.ipynb\<close>. Cells are numbered by their position in the
  notebook, from 0, the markdown cells counted; the lines are those of the file.
\<close>

text \<open>
  Cell 2 (line 32):
  \<^verbatim>\<open>
  import pygmt
  \<close>
\<close>

definition first_figure_c2 :: "stmt list" where
  "first_figure_c2 =
    [Import ''pygmt'']"

text \<open>
  Cell 5 (line 66):
  \<^verbatim>\<open>
  fig = pygmt.Figure()
  \<close>
\<close>

definition first_figure_c5 :: "stmt list" where
  "first_figure_c5 =
    [Assign ''fig'' [Call Pygmt ''Figure'']]"

text \<open>
  Cell 8 (line 94):
  \<^verbatim>\<open>
  region = [125, 155, 30, 55]
  \<close>
\<close>

definition first_figure_c8 :: "stmt list" where
  "first_figure_c8 =
    [Assign ''region'' []]"

text \<open>
  Cell 10 (line 112):
  \<^verbatim>\<open>
  fig.coast(region=region, shorelines=True)
  \<close>
\<close>

definition first_figure_c10 :: "stmt list" where
  "first_figure_c10 =
    [Expr [Call Pygmt ''Figure.coast'']]"

text \<open>
  Cell 12 (line 130):
  \<^verbatim>\<open>
  fig.show()
  \<close>
\<close>

definition first_figure_c12 :: "stmt list" where
  "first_figure_c12 =
    [Expr [Call Pygmt ''Figure.show'']]"

text \<open>
  Cell 15 (lines 158 to 159):
  \<^verbatim>\<open>
  fig.coast(water="lightblue")
  fig.show()
  \<close>
\<close>

definition first_figure_c15 :: "stmt list" where
  "first_figure_c15 =
    [Expr [Call Pygmt ''Figure.coast''],
     Expr [Call Pygmt ''Figure.show'']]"

text \<open>
  Cell 17 (lines 177 to 178):
  \<^verbatim>\<open>
  fig.coast(land="lightgreen")
  fig.show()
  \<close>
\<close>

definition first_figure_c17 :: "stmt list" where
  "first_figure_c17 =
    [Expr [Call Pygmt ''Figure.coast''],
     Expr [Call Pygmt ''Figure.show'']]"

text \<open>
  Cell 19 (lines 201 to 206):
  \<^verbatim>\<open>
  fig = pygmt.Figure()
  # First draw the solid colors
  fig.coast(region=region, land="lightgreen", water="lightblue")  # Pass region to the first plot element
  # Then lay down the shorelines on top
  fig.coast(shorelines=True)
  fig.show()
  \<close>
\<close>

definition first_figure_c19 :: "stmt list" where
  "first_figure_c19 =
    [Assign ''fig'' [Call Pygmt ''Figure''],
     Expr [Call Pygmt ''Figure.coast''],
     Expr [Call Pygmt ''Figure.coast''],
     Expr [Call Pygmt ''Figure.show'']]"

text \<open>
  Cell 21 (lines 224 to 226):
  \<^verbatim>\<open>
  fig = pygmt.Figure()
  fig.coast(region=region, shorelines=True, land="lightgreen", water="lightblue")
  fig.show()
  \<close>
\<close>

definition first_figure_c21 :: "stmt list" where
  "first_figure_c21 =
    [Assign ''fig'' [Call Pygmt ''Figure''],
     Expr [Call Pygmt ''Figure.coast''],
     Expr [Call Pygmt ''Figure.show'']]"

text \<open>
  Cell 24 (lines 254 to 257):
  \<^verbatim>\<open>
  fig = pygmt.Figure()
  fig.coast(region=region, shorelines=True, land="lightgreen", water="lightblue")
  fig.basemap(frame="a")
  fig.show()
  \<close>
\<close>

definition first_figure_c24 :: "stmt list" where
  "first_figure_c24 =
    [Assign ''fig'' [Call Pygmt ''Figure''],
     Expr [Call Pygmt ''Figure.coast''],
     Expr [Call Pygmt ''Figure.basemap''],
     Expr [Call Pygmt ''Figure.show'']]"

text \<open>
  Cell 27 (lines 287 to 290):
  \<^verbatim>\<open>
  fig = pygmt.Figure()
  fig.coast(region=region, shorelines=True, land="lightgreen", water="lightblue")
  fig.basemap(frame="af")
  fig.show()
  \<close>
\<close>

definition first_figure_c27 :: "stmt list" where
  "first_figure_c27 =
    [Assign ''fig'' [Call Pygmt ''Figure''],
     Expr [Call Pygmt ''Figure.coast''],
     Expr [Call Pygmt ''Figure.basemap''],
     Expr [Call Pygmt ''Figure.show'']]"

text \<open>
  Cell 30 (lines 318 to 321):
  \<^verbatim>\<open>
  fig = pygmt.Figure()
  fig.coast(region=region, shorelines=True, land="lightgreen", water="lightblue")
  fig.basemap(frame="afg")
  fig.show()
  \<close>
\<close>

definition first_figure_c30 :: "stmt list" where
  "first_figure_c30 =
    [Assign ''fig'' [Call Pygmt ''Figure''],
     Expr [Call Pygmt ''Figure.coast''],
     Expr [Call Pygmt ''Figure.basemap''],
     Expr [Call Pygmt ''Figure.show'']]"

text \<open>
  Cell 33 (lines 353 to 356):
  \<^verbatim>\<open>
  fig = pygmt.Figure()
  fig.coast(region=region, shorelines=True, land="lightgreen", water="lightblue")
  fig.basemap(frame=["afg", "+tCoastlines around Japan"])
  fig.show()
  \<close>
\<close>

definition first_figure_c33 :: "stmt list" where
  "first_figure_c33 =
    [Assign ''fig'' [Call Pygmt ''Figure''],
     Expr [Call Pygmt ''Figure.coast''],
     Expr [Call Pygmt ''Figure.basemap''],
     Expr [Call Pygmt ''Figure.show'']]"

text \<open>
  Cell 35 (lines 378 to 387):
  \<^verbatim>\<open>
  fig = pygmt.Figure()
  fig.coast(
      projection="C140/40/15c",
      region=region,
      land="lightgreen",
      water="lightblue",
      shorelines=True,
  )
  fig.basemap(frame=["afg", "+tCoastlines around Japan"])
  fig.show()
  \<close>
\<close>

definition first_figure_c35 :: "stmt list" where
  "first_figure_c35 =
    [Assign ''fig'' [Call Pygmt ''Figure''],
     Expr [Call Pygmt ''Figure.coast''],
     Expr [Call Pygmt ''Figure.basemap''],
     Expr [Call Pygmt ''Figure.show'']]"

text \<open>
  Cell 38 (lines 417 to 418):
  \<^verbatim>\<open>
  data = pygmt.datasets.load_sample_data(name="japan_quakes")
  data
  \<close>
\<close>

definition first_figure_c38 :: "stmt list" where
  "first_figure_c38 =
    [Assign ''data'' [Call Pygmt ''datasets.load_sample_data''],
     Expr []]"

text \<open>
  Cell 41 (lines 446 to 456):
  \<^verbatim>\<open>
  fig = pygmt.Figure()
  fig.coast(
      projection="C140/40/15c",
      region=region,
      land="lightgreen",
      water="lightblue",
      shorelines=True,
  )
  fig.plot(x=data.longitude, y=data.latitude)
  fig.basemap(frame=["afg", "+tEarthquakes around Japan"])
  fig.show()
  \<close>
\<close>

definition first_figure_c41 :: "stmt list" where
  "first_figure_c41 =
    [Assign ''fig'' [Call Pygmt ''Figure''],
     Expr [Call Pygmt ''Figure.coast''],
     Expr [Call Pygmt ''Figure.plot''],
     Expr [Call Pygmt ''Figure.basemap''],
     Expr [Call Pygmt ''Figure.show'']]"

text \<open>
  Cell 43 (lines 474 to 484):
  \<^verbatim>\<open>
  fig = pygmt.Figure()
  fig.coast(
      projection="C140/40/15c",
      region=region,
      land="lightgreen",
      water="lightblue",
      shorelines=True,
  )
  fig.plot(x=data.longitude, y=data.latitude, style="c0.3c", color="white")
  fig.basemap(frame=["afg", "+tEarthquakes around Japan"])
  fig.show()
  \<close>
\<close>

definition first_figure_c43 :: "stmt list" where
  "first_figure_c43 =
    [Assign ''fig'' [Call Pygmt ''Figure''],
     Expr [Call Pygmt ''Figure.coast''],
     Expr [Call Pygmt ''Figure.plot''],
     Expr [Call Pygmt ''Figure.basemap''],
     Expr [Call Pygmt ''Figure.show'']]"

text \<open>
  Cell 46 (lines 519 to 530):
  \<^verbatim>\<open>
  fig = pygmt.Figure()
  fig.coast(
      projection="C140/40/15c",
      region=region,
      land="lightgreen",
      water="lightblue",
      shorelines=True,
  )
  pygmt.makecpt(cmap="plasma", series=[data.depth_km.min(), data.depth_km.max()])
  fig.plot(x=data.longitude, y=data.latitude, style="c0.3c", color=data.depth_km, cmap=True)
  fig.basemap(frame=["afg", "+tEarthquakes around Japan"])
  fig.show()
  \<close>
\<close>

definition first_figure_c46 :: "stmt list" where
  "first_figure_c46 =
    [Assign ''fig'' [Call Pygmt ''Figure''],
     Expr [Call Pygmt ''Figure.coast''],
     Expr
         [Call Pygmt ''makecpt'',
          Call Pandas ''Series.min'',
          Call Pandas ''Series.max''],
     Expr [Call Pygmt ''Figure.plot''],
     Expr [Call Pygmt ''Figure.basemap''],
     Expr [Call Pygmt ''Figure.show'']]"

text \<open>
  Cell 49 (lines 558 to 570):
  \<^verbatim>\<open>
  fig = pygmt.Figure()
  fig.coast(
      projection="C140/40/15c",
      region=region,
      land="lightgreen",
      water="lightblue",
      shorelines=True,
  )
  pygmt.makecpt(cmap="plasma", series=[data.depth_km.min(), data.depth_km.max()])
  fig.plot(x=data.longitude, y=data.latitude, style="c0.3c", color=data.depth_km, cmap=True)
  fig.basemap(frame=["afg", "+tEarthquakes around Japan"])
  fig.colorbar(frame=["a", "y+lDepth (km)"])
  fig.show()
  \<close>
\<close>

definition first_figure_c49 :: "stmt list" where
  "first_figure_c49 =
    [Assign ''fig'' [Call Pygmt ''Figure''],
     Expr [Call Pygmt ''Figure.coast''],
     Expr
         [Call Pygmt ''makecpt'',
          Call Pandas ''Series.min'',
          Call Pandas ''Series.max''],
     Expr [Call Pygmt ''Figure.plot''],
     Expr [Call Pygmt ''Figure.basemap''],
     Expr [Call Pygmt ''Figure.colorbar''],
     Expr [Call Pygmt ''Figure.show'']]"

text \<open>The code cells of the notebook, in order.\<close>

definition first_figure_cells :: "stmt list list" where
  "first_figure_cells =
    [first_figure_c2, first_figure_c5, first_figure_c8, first_figure_c10,
     first_figure_c12, first_figure_c15, first_figure_c17, first_figure_c19,
     first_figure_c21, first_figure_c24, first_figure_c27, first_figure_c30,
     first_figure_c33, first_figure_c35, first_figure_c38, first_figure_c41,
     first_figure_c43, first_figure_c46, first_figure_c49]"

subsection \<open>The notebook book/lidar_to_surface.ipynb (LiDAR point clouds to 3D surfaces)\<close>

text \<open>
  The first notebook of the file \<^verbatim>\<open>book/lidar_to_surface.ipynb\<close>.
\<close>

text \<open>
  Cell 2 (lines 40 to 44):
  \<^verbatim>\<open>
  import laspy
  import pandas as pd
  import pygmt
  import rioxarray
  import xarray as xr
  \<close>
\<close>

definition lidar_c2 :: "stmt list" where
  "lidar_c2 =
    [Import ''laspy'',
     Import ''pandas'',
     Import ''pygmt'',
     Import ''rioxarray'',
     Import ''xarray'']"

text \<open>
  Cell 5 (lines 89 to 94):
  \<^verbatim>\<open>
  # Download LiDAR LAZ file from a URL
  lazfile = pygmt.which(
      fname="https://opentopography.s3.sdsc.edu/pc-bulk/NZ19_Wellington/CL2_BQ31_2019_1000_2138.laz",
      download=True,
  )
  print(lazfile)
  \<close>
\<close>

definition lidar_c5 :: "stmt list" where
  "lidar_c5 =
    [Assign ''lazfile'' [Call Pygmt ''which''],
     Expr [Call Builtin ''print'']]"

text \<open>
  Cell 8 (lines 120 to 129):
  \<^verbatim>\<open>
  # Load LAZ data into a pandas DataFrame
  lazdata = laspy.read(source=lazfile)
  df = pd.DataFrame(
      data={
          "x": lazdata.x.scaled_array(),
          "y": lazdata.y.scaled_array(),
          "z": lazdata.z.scaled_array(),
          "classification": lazdata.classification,
      }
  )
  \<close>
\<close>

definition lidar_c8 :: "stmt list" where
  "lidar_c8 =
    [Assign ''lazdata'' [Call Laspy ''read''],
     Assign ''df''
         [Call Pandas ''DataFrame'',
          Call Laspy ''ScaledArrayView.scaled_array'',
          Call Laspy ''ScaledArrayView.scaled_array'',
          Call Laspy ''ScaledArrayView.scaled_array'']]"

text \<open>
  Cell 11 (lines 153 to 155):
  \<^verbatim>\<open>
  # Get bounding box region
  region = pygmt.info(data=df[["x", "y"]], spacing=1)  # West, East, South, North
  print(f"Data points covers region: {region}")
  \<close>
\<close>

definition lidar_c11 :: "stmt list" where
  "lidar_c11 =
    [Assign ''region'' [Call Pygmt ''info'', Subscript Pandas ''DataFrame''],
     Expr [Call Builtin ''print'']]"

text \<open>
  Cell 13 (lines 172 to 174):
  \<^verbatim>\<open>
  # Print summary statistics
  print(f"Total of {len(df)} data points")
  df.describe()
  \<close>
\<close>

definition lidar_c13 :: "stmt list" where
  "lidar_c13 =
    [Expr [Call Builtin ''print'', Call Builtin ''len''],
     Expr [Call Pandas ''DataFrame.describe'']]"

text \<open>
  Cell 15 (lines 197 to 198):
  \<^verbatim>\<open>
  df_filtered = df.iloc[::20]
  print(f"Filtered down to {len(df_filtered)} data points")
  \<close>
\<close>

definition lidar_c15 :: "stmt list" where
  "lidar_c15 =
    [Assign ''df_filtered'' [Subscript Pandas ''DataFrame.iloc''],
     Expr [Call Builtin ''print'', Call Builtin ''len'']]"

text \<open>
  Cell 17 (lines 214 to 222):
  \<^verbatim>\<open>
  # Plot XYZ points on a map
  fig = pygmt.Figure()
  fig.basemap(frame=True, region=region, projection="x1:5000")
  pygmt.makecpt(cmap="bukavu", series=[df.z.min(), df.z.max()])
  fig.plot(
      x=df_filtered.x, y=df_filtered.y, color=df_filtered.z, style="c0.03c", cmap=True
  )
  fig.colorbar(position="JMR", frame=["af+lElevation", "y+lm"])
  fig.show()
  \<close>
\<close>

definition lidar_c17 :: "stmt list" where
  "lidar_c17 =
    [Assign ''fig'' [Call Pygmt ''Figure''],
     Expr [Call Pygmt ''Figure.basemap''],
     Expr
         [Call Pygmt ''makecpt'',
          Call Pandas ''Series.min'',
          Call Pandas ''Series.max''],
     Expr [Call Pygmt ''Figure.plot''],
     Expr [Call Pygmt ''Figure.colorbar''],
     Expr [Call Pygmt ''Figure.show'']]"

text \<open>
  Cell 21 (lines 265 to 266):
  \<^verbatim>\<open>
  df = df.query(expr="classification != 18")
  df
  \<close>
\<close>

definition lidar_c21 :: "stmt list" where
  "lidar_c21 =
    [Assign ''df'' [Call Pandas ''DataFrame.query''],
     Expr []]"

text \<open>
  Cell 24 (lines 303 to 310):
  \<^verbatim>\<open>
  # Preprocess LiDAR data using blockmedian
  df_trimmed = pygmt.blockmedian(
      data=df[["x", "y", "z"]],
      T=0.99,  # 99th quantile, i.e. the highest point
      spacing="1+e",
      region=region,
  )
  df_trimmed
  \<close>
\<close>

definition lidar_c24 :: "stmt list" where
  "lidar_c24 =
    [Assign ''df_trimmed'' [Call Pygmt ''blockmedian'', Subscript Pandas ''DataFrame''],
     Expr []]"

text \<open>
  Cell 27 (lines 341 to 350):
  \<^verbatim>\<open>
  # Create a Digital Surface Elevation Model with
  # a spatial resolution of 1m.
  grid = pygmt.surface(
      x=df_trimmed.x,
      y=df_trimmed.y,
      z=df_trimmed.z,
      spacing="1+e",
      region=region,  # xmin, xmax, ymin, ymax
      T=0.35,  # tension factor
  )
  \<close>
\<close>

definition lidar_c27 :: "stmt list" where
  "lidar_c27 =
    [Assign ''grid'' [Call Pygmt ''surface'']]"

text \<open>
  Cell 29 (line 370):
  \<^verbatim>\<open>
  grid
  \<close>
\<close>

definition lidar_c29 :: "stmt list" where
  "lidar_c29 =
    [Expr []]"

text \<open>
  Cell 32 (lines 400 to 409):
  \<^verbatim>\<open>
  fig2 = pygmt.Figure()
  fig2.basemap(
      frame=True,
      region=[1_749_760, 1_750_240, 5_426_880, 5_427_600],
      projection="x1:5000",
  )
  pygmt.makecpt(cmap="bukavu", series=[-10, 200])
  fig2.grdimage(grid=grid, cmap=True)
  fig2.colorbar(position="JMR", frame=["af+lElevation", "y+lm"])
  fig2.show()
  \<close>
\<close>

definition lidar_c32 :: "stmt list" where
  "lidar_c32 =
    [Assign ''fig2'' [Call Pygmt ''Figure''],
     Expr [Call Pygmt ''Figure.basemap''],
     Expr [Call Pygmt ''makecpt''],
     Expr [Call Pygmt ''Figure.grdimage''],
     Expr [Call Pygmt ''Figure.colorbar''],
     Expr [Call Pygmt ''Figure.show'']]"

text \<open>
  Cell 34 (lines 436 to 444):
  \<^verbatim>\<open>
  fig3 = pygmt.Figure()
  fig3.grdview(
      grid=grid,
      cmap="bukavu",
      surftype="s",  # surface plot
      perspective=[315, 30],  # azimuth bearing, and elevation angle
      zscale=0.02,  # vertical exaggeration
  )
  fig3.show()
  \<close>
\<close>

definition lidar_c34 :: "stmt list" where
  "lidar_c34 =
    [Assign ''fig3'' [Call Pygmt ''Figure''],
     Expr [Call Pygmt ''Figure.grdview''],
     Expr [Call Pygmt ''Figure.show'']]"

text \<open>
  Cell 36 (lines 466 to 481):
  \<^verbatim>\<open>
  fig3 = pygmt.Figure()
  fig3.grdview(
      grid=grid,
      cmap="bukavu",
      surftype="s",  # surface plot
      perspective=[315, 30],  # azimuth bearing, and elevation angle
      zscale=0.02,  # vertical exaggeration
      shading=True,  # hillshading
      frame=[
          "xaf+lEasting",
          "yaf+lNorthing",
          "zaf+lElevation (m)",
          "+tOriental Bay, Wellington",
      ],
  )
  fig3.show()
  \<close>
\<close>

definition lidar_c36 :: "stmt list" where
  "lidar_c36 =
    [Assign ''fig3'' [Call Pygmt ''Figure''],
     Expr [Call Pygmt ''Figure.grdview''],
     Expr [Call Pygmt ''Figure.show'']]"

text \<open>
  Cell 39 (lines 511 to 513):
  \<^verbatim>\<open>
  fig.savefig(fname="wellington_1d_lidar.png")
  fig2.savefig(fname="wellington_2d_dsm_map.png")
  fig3.savefig(fname="wellington_3d_dsm_view.png")
  \<close>
\<close>

definition lidar_c39 :: "stmt list" where
  "lidar_c39 =
    [Expr [Call Pygmt ''Figure.savefig''],
     Expr [Call Pygmt ''Figure.savefig''],
     Expr [Call Pygmt ''Figure.savefig'']]"

text \<open>
  Cell 41 (line 531):
  \<^verbatim>\<open>
  grid.rio.to_raster(raster_path="DSM_of_Wellington.tif")
  \<close>
\<close>

definition lidar_c41 :: "stmt list" where
  "lidar_c41 =
    [Expr [Call Rioxarray ''rio.to_raster'']]"

text \<open>
  Cell 46 (lines 588 to 606):
  \<^verbatim>\<open>
  filenames = [
      # "",
  ]

  df = pd.DataFrame()  # Start an empty DataFrame
  for fname in filenames:
      lazfile = pygmt.which(fname=fname, download=True)

      lazdata = laspy.read(source=lazfile)
      temp_df = pd.DataFrame(
          data={
              "x": lazdata.x.scaled_array(),
              "y": lazdata.y.scaled_array(),
              "z": lazdata.z.scaled_array(),
              "classification": lazdata.classification,
          }
      )
      # load each point cloud into the DataFrame
      df = df.append(temp_df, ignore_index=True)
  \<close>
  The list of file names is empty as the notebook stands: the reader is to fill it in.
\<close>

definition lidar_c46 :: "stmt list" where
  "lidar_c46 =
    [Assign ''filenames'' [],
     Assign ''df'' [Call Pandas ''DataFrame''],
     For ''fname'' []
       [Assign ''lazfile'' [Call Pygmt ''which''],
        Assign ''lazdata'' [Call Laspy ''read''],
        Assign ''temp_df''
            [Call Pandas ''DataFrame'',
             Call Laspy ''ScaledArrayView.scaled_array'',
             Call Laspy ''ScaledArrayView.scaled_array'',
             Call Laspy ''ScaledArrayView.scaled_array''],
        Assign ''df'' [Call Pandas ''DataFrame.append'']]]"

text \<open>
  Cell 47 (line 615):
  \<^verbatim>\<open>
  df
  \<close>
\<close>

definition lidar_c47 :: "stmt list" where
  "lidar_c47 =
    [Expr []]"

text \<open>
  Cell 49 (line 631):
  \<^verbatim>\<open>
  # Run blockmedian
  \<close>
\<close>

definition lidar_c49 :: "stmt list" where
  "lidar_c49 =
    []"

text \<open>
  Cell 50 (line 640):
  \<^verbatim>\<open>
  # Run surface
  \<close>
\<close>

definition lidar_c50 :: "stmt list" where
  "lidar_c50 =
    []"

text \<open>
  Cell 52 (line 656):
  \<^verbatim>\<open>
  # Run grdimage
  \<close>
\<close>

definition lidar_c52 :: "stmt list" where
  "lidar_c52 =
    []"

text \<open>
  Cell 53 (line 665):
  \<^verbatim>\<open>
  # Run grdview
  \<close>
\<close>

definition lidar_c53 :: "stmt list" where
  "lidar_c53 =
    []"

text \<open>The code cells of the notebook, in order.\<close>

definition lidar_cells :: "stmt list list" where
  "lidar_cells =
    [lidar_c2, lidar_c5, lidar_c8, lidar_c11, lidar_c13, lidar_c15, lidar_c17,
     lidar_c21, lidar_c24, lidar_c27, lidar_c29, lidar_c32, lidar_c34, lidar_c36,
     lidar_c39, lidar_c41, lidar_c46, lidar_c47, lidar_c49, lidar_c50, lidar_c52,
     lidar_c53]"

subsection \<open>The notebook Making some Mars maps with pygmt (extended)\<close>

text \<open>
  The second notebook of the file \<^verbatim>\<open>book/lidar_to_surface.ipynb\<close>, the extended version
  of the Mars notebook.
\<close>

text \<open>
  Cell 2 (lines 753 to 774):
  \<^verbatim>\<open>
  %%script echo skipping

  # because I like to enjoy my coffee in silence, it takes time.
  # (3 runs averaged 6 minutes to install everything ! keep drinking your coffee)
  # comment the %%capture line if you want to see the colab VM working
  %%capture
  !sudo apt update
  !sudo apt upgrade -y
  !sudo apt install -y build-essential cmake libcurl4-gnutls-dev libnetcdf-dev gdal-bin libgdal-dev libfftw3-dev libpcre3-dev liblapack-dev libblas-dev libglib2.0-dev ghostscript ghostscript-x graphicsmagick ffmpeg xdg-utils
  # clone gmt from source
  !git clone --depth 50 https://github.com/GenericMappingTools/gmt
  # cmake everything
  !cmake /content/gmt
  # build and install
  !cmake --build . --target install

  # and last but not least
  !pip install pygmt

  # and if you don't believe in it
  !gmt --version
  !python --version
  \<close>
  The cell magic \<^verbatim>\<open>%%script echo skipping\<close> hands the cell to \<^verbatim>\<open>echo\<close>, so the lines below
  it are not run; the model keeps them as they stand.
\<close>

definition mars_ext_c2 :: "stmt list" where
  "mars_ext_c2 =
    [Magic ''script'',
     Magic ''capture'',
     Shell ''sudo'',
     Shell ''sudo'',
     Shell ''sudo'',
     Shell ''git'',
     Shell ''cmake'',
     Shell ''cmake'',
     Shell ''pip'',
     Shell ''gmt'',
     Shell ''python'']"

text \<open>
  Cell 3 (lines 792 to 797):
  \<^verbatim>\<open>
  # Also, if you are in colab or trying from your jupyter, you will need the Mars Topography (MOLA) already in Netcdf
  # a copy of the original file distributed from the Mars Climate Database,
  # from the European Space Agency under ESTEC contract 11369/95/NL/JG(SC) and Centre National D'Etude Spatial
  # is on GitHub.

  !wget https://github.com/andrebelem/PlanetaryMaps/raw/v1.0/mola32.nc
  \<close>
\<close>

definition mars_ext_c3 :: "stmt list" where
  "mars_ext_c3 =
    [Shell ''wget'']"

text \<open>
  Cell 5 (line 815):
  \<^verbatim>\<open>
  %matplotlib inline
  \<close>
\<close>

definition mars_ext_c5 :: "stmt list" where
  "mars_ext_c5 =
    [Magic ''matplotlib'']"

text \<open>
  Cell 7 (lines 836 to 839):
  \<^verbatim>\<open>
  import xarray as xr

  dset_mars = xr.open_dataset('mola32.nc')
  dset_mars
  \<close>
\<close>

definition mars_ext_c7 :: "stmt list" where
  "mars_ext_c7 =
    [Import ''xarray'',
     Assign ''dset_mars'' [Call Xarray ''open_dataset''],
     Expr []]"

text \<open>
  Cell 9 (lines 861 to 870):
  \<^verbatim>\<open>
  import pygmt

  # convert from int16 to float
  dset_mars_topo = dset_mars.alt.astype(float)

  # May be a global Mars map is very interesting. We just need to get a better resolution not to consume all memory
  # translate here changes from grid to pixel registration and spacing sets to 1 degree resolution
  dset_mars_topo = pygmt.grdsample(grid=dset_mars_topo,translate=True,spacing=[1,1])

  # don't be worried about the warnings.
  \<close>
\<close>

definition mars_ext_c9 :: "stmt list" where
  "mars_ext_c9 =
    [Import ''pygmt'',
     Assign ''dset_mars_topo'' [Call Xarray ''DataArray.astype''],
     Assign ''dset_mars_topo'' [Call Pygmt ''grdsample'']]"

text \<open>
  Cell 11 (lines 893 to 901):
  \<^verbatim>\<open>
  fig = pygmt.Figure()

  fig.grdimage(grid=dset_mars_topo,region='g',frame=True,projection='Cyl_stere/0/0/12c')
  # you can try with different cylindrical or miscellaneous projections
  # see at https://www.pygmt.org/dev/projections/index.html
  # some ideas: Eckert IV = Kf; Hammer = H; Mollweide = W

  fig.colorbar(frame=["a5000", "x+lElevation", "y+lm"])
  fig.show()
  \<close>
\<close>

definition mars_ext_c11 :: "stmt list" where
  "mars_ext_c11 =
    [Assign ''fig'' [Call Pygmt ''Figure''],
     Expr [Call Pygmt ''Figure.grdimage''],
     Expr [Call Pygmt ''Figure.colorbar''],
     Expr [Call Pygmt ''Figure.show'']]"

text \<open>
  Cell 13 (lines 924 to 927):
  \<^verbatim>\<open>
  # Olympus Mons is located in these slices of 12 degrees of latitude and 30 degrees of longitude
  # note we are cutting the region of interest and converting here the original "alt" data in int16 to float (for grid)
  dset_olympus = dset_mars.sel(latitude=slice(25,13),longitude=slice(210,240)).alt.astype('float')
  dset_olympus.plot()
  \<close>
\<close>

definition mars_ext_c13 :: "stmt list" where
  "mars_ext_c13 =
    [Assign ''dset_olympus''
         [Call Xarray ''Dataset.sel'',
          Call Builtin ''slice'',
          Call Builtin ''slice'',
          Call Xarray ''DataArray.astype''],
     Expr [Call Xarray ''DataArray.plot'']]"

text \<open>
  Cell 15 (lines 951 to 958):
  \<^verbatim>\<open>
  # first things, first
  fig = pygmt.Figure()
  # note I can add projection, after cmap and after, frame (and control frame)
  fig.grdimage(grid=dset_olympus,projection='M12c',frame='a5f1',cmap='geo')
  # also, I can add a colorbar (later)
  fig.colorbar(frame=["a2500", "x+lElevation", "y+lm"])

  fig.show()
  \<close>
\<close>

definition mars_ext_c15 :: "stmt list" where
  "mars_ext_c15 =
    [Assign ''fig'' [Call Pygmt ''Figure''],
     Expr [Call Pygmt ''Figure.grdimage''],
     Expr [Call Pygmt ''Figure.colorbar''],
     Expr [Call Pygmt ''Figure.show'']]"

text \<open>
  Cell 17 (lines 988 to 1020):
  \<^verbatim>\<open>
  # a little perspective

  fig = pygmt.Figure()
  # note I can add projection, after cmap and after, frame (and control frame)
  topo_cpt = pygmt.makecpt(cmap='sealand',series=f'-5000/24000/1000',continuous=True)
  frame =  ["xa5f1","ya5f1", "z5000+lmeters", "wSEnZ"]

  fig.grdview(grid=dset_olympus,
              region=[210,240,13,25,-5000,23000],
              frame=frame,
              perspective=[150,45],
              projection='M18c',
              zsize='4c',
              surftype='s',
              cmap=topo_cpt,
              plane="-5000+ggrey",
              shading='+a100+nt1',
              # Set the contour pen thickness to "0.1p"
              contourpen="0.1p",)

  fig.colorbar(perspective=True, frame=["a5000", "x+lElevation", "y+lm"])

  bounds = [[210.,13.],
            [210.,25.],
            [240.,25.],
            [240.,13.],
            [210.,13.]]

  with fig.inset(position="JTR+w3.5c+o0.2c", margin=0, box=None):
      # Create a figure in the inset using the global projection centered at Olympus MOns
      fig.grdimage(grid=dset_mars_topo,region='g',frame='g',projection='G225/19/3.5c"')
      fig.plot(bounds,pen="1p,red")
  fig.show()
  \<close>
\<close>

definition mars_ext_c17 :: "stmt list" where
  "mars_ext_c17 =
    [Assign ''fig'' [Call Pygmt ''Figure''],
     Assign ''topo_cpt'' [Call Pygmt ''makecpt''],
     Assign ''frame'' [],
     Expr [Call Pygmt ''Figure.grdview''],
     Expr [Call Pygmt ''Figure.colorbar''],
     Assign ''bounds'' [],
     With [Call Pygmt ''Figure.inset'']
       [Expr [Call Pygmt ''Figure.grdimage''],
        Expr [Call Pygmt ''Figure.plot'']],
     Expr [Call Pygmt ''Figure.show'']]"

text \<open>
  Cell 19 (lines 1044 to 1048):
  \<^verbatim>\<open>
  # get SRTM around Hawaii
  topo_hawaii = pygmt.datasets.load_earth_relief(region=[-170,-140,13,25],resolution="05m")

  # and get the whole Earth at the same resolution of our low resolution Mars dataset
  topo_globe = pygmt.datasets.load_earth_relief(region=[-180,180,-90,90],resolution="01d")
  \<close>
\<close>

definition mars_ext_c19 :: "stmt list" where
  "mars_ext_c19 =
    [Assign ''topo_hawaii'' [Call Pygmt ''datasets.load_earth_relief''],
     Assign ''topo_globe'' [Call Pygmt ''datasets.load_earth_relief'']]"

text \<open>
  Cell 21 (lines 1071 to 1079):
  \<^verbatim>\<open>
  # second things, second

  fig = pygmt.Figure()
  # note I can add projection, after cmap and after, frame (and control frame)
  fig.grdimage(grid=topo_hawaii,projection='M12c',frame='a5f1',cmap='geo')
  # also, I can add a colorbar (later)
  fig.colorbar(frame=["a2500", "x+lElevation", "y+lm"])

  fig.show()
  \<close>
\<close>

definition mars_ext_c21 :: "stmt list" where
  "mars_ext_c21 =
    [Assign ''fig'' [Call Pygmt ''Figure''],
     Expr [Call Pygmt ''Figure.grdimage''],
     Expr [Call Pygmt ''Figure.colorbar''],
     Expr [Call Pygmt ''Figure.show'']]"

text \<open>
  Cell 23 (lines 1104 to 1137):
  \<^verbatim>\<open>
  fig = pygmt.Figure()
  # note I can add projection, after cmap and after, frame (and control frame)
  frame =  ["xa5f1","ya5f1", "z5000+lmeters", "wSEnZ"]

  topo_cpt = pygmt.makecpt(cmap='sealand',series=f'-5000/24000/1000',continuous=True)

  fig.grdview(grid=topo_hawaii,
              region=[-170,-140,13,25,-5000,23000],
              frame=frame,
              perspective=[150,45],
              projection='M15c',
              zsize='4c',
              surftype='s',
              cmap=topo_cpt,
              plane="-5000+ggrey",
              shading='+a100+nt1',
              # Set the contour pen thickness to "0.1p"
              contourpen="0.1p",)

  fig.colorbar(perspective=True, frame=["a5000", "x+lElevation", "y+lm"])

  bounds = [[-170.,13.],
            [-170.,25.],
            [-140.,25.],
            [-140.,13.],
            [-170.,13.]]

  with fig.inset(position="JTR+w3.5c+o0.2c", margin=0, box=None):
      # Create a figure in the inset using the global projection centered at Olympus MOns
      fig.grdimage(grid=topo_globe,region='g',frame='g',projection='G-160/19/3.5c"')
      fig.coast(region='g',shorelines="thin", frame="g")
      fig.plot(bounds,pen="1p,red")

  fig.show()
  \<close>
\<close>

definition mars_ext_c23 :: "stmt list" where
  "mars_ext_c23 =
    [Assign ''fig'' [Call Pygmt ''Figure''],
     Assign ''frame'' [],
     Assign ''topo_cpt'' [Call Pygmt ''makecpt''],
     Expr [Call Pygmt ''Figure.grdview''],
     Expr [Call Pygmt ''Figure.colorbar''],
     Assign ''bounds'' [],
     With [Call Pygmt ''Figure.inset'']
       [Expr [Call Pygmt ''Figure.grdimage''],
        Expr [Call Pygmt ''Figure.coast''],
        Expr [Call Pygmt ''Figure.plot'']],
     Expr [Call Pygmt ''Figure.show'']]"

text \<open>
  Cell 25 (lines 1162 to 1209):
  \<^verbatim>\<open>
  fig = pygmt.Figure()

  with fig.subplot(
      nrows=1, ncols=2, figsize=("28c", "16c"), autolabel=True, margins="1c"
  ):
      with fig.set_panel(panel=0):

          topo_cpt = pygmt.makecpt(cmap='sealand',series=f'-5000/24000/1000',continuous=True)

          frame =  ["xa5f1","ya5f1", "z5000+lmeters", "wSEnZ"]

          fig.grdview(grid=dset_olympus,
                      region=[210,240,13,25,-5000,23000],
                      frame=frame,
                      perspective=[150,45],
                      projection='M',
                      zsize='4c',
                      surftype='s',
                      cmap=topo_cpt,
                      plane="-5000+ggrey",
                      shading='+a100+nt1',
                      # Set the contour pen thickness to "0.1p"
                      contourpen="0.1p",)

          # we don't need the colormap in both figures
          #fig.colorbar(perspective=True, frame=["a5000", "x+lElevation", "y+lm"])

      with fig.set_panel(panel=1):
          frame =  ["xa5f1","ya5f1", "z5000+lmeters", "wSEnZ"]

          topo_cpt = pygmt.makecpt(cmap='sealand',series=f'-5000/24000/1000',continuous=True)

          fig.grdview(grid=topo_hawaii,
                      region=[-170,-140,13,25,-5000,23000],
                      frame=frame,
                      perspective=[150,45],
                      projection='M',
                      zsize='4c',
                      surftype='s',
                      cmap=topo_cpt,
                      plane="-5000+ggrey",
                      shading='+a100+nt1',
                      # Set the contour pen thickness to "0.1p"
                      contourpen="0.1p",)

          fig.colorbar(perspective=True, frame=["a5000", "x+lElevation", "y+lm"])

  fig.show()
  \<close>
\<close>

definition mars_ext_c25 :: "stmt list" where
  "mars_ext_c25 =
    [Assign ''fig'' [Call Pygmt ''Figure''],
     With [Call Pygmt ''Figure.subplot'']
       [With [Call Pygmt ''Figure.set_panel'']
          [Assign ''topo_cpt'' [Call Pygmt ''makecpt''],
           Assign ''frame'' [],
           Expr [Call Pygmt ''Figure.grdview'']],
        With [Call Pygmt ''Figure.set_panel'']
          [Assign ''frame'' [],
           Assign ''topo_cpt'' [Call Pygmt ''makecpt''],
           Expr [Call Pygmt ''Figure.grdview''],
           Expr [Call Pygmt ''Figure.colorbar'']]],
     Expr [Call Pygmt ''Figure.show'']]"

text \<open>
  Cell 27 (lines 1229 to 1244):
  \<^verbatim>\<open>
  fig = pygmt.Figure()

  # we are using a Orthographic view centered at the landing site
  fig.grdimage(grid=dset_mars_topo,region='g',frame='g',projection='G109.926/25.066/12c"',shading='+a100+nt1')

  zhurong = [109.926,25.066]
  Olympus = [360-210,19.0] #position for Olympus Mons - see the letf border of the area

  # and we drop a "star" in the landing site and write with a small displacement of text
  fig.plot(x=zhurong[0],y=zhurong[1],style="a0.5c", pen="1p,black", color="darkorange")
  fig.text(x=zhurong[0]+5,y=zhurong[1]+5, text="Zhurong", font='10p,Helvetica-Bold')

  fig.text(x=Olympus[0],y=Olympus[1], text="Olympus Mons", font='10p,Helvetica-Bold')

  fig.colorbar(frame=["a5000", "x+lElevation", "y+lm"])
  fig.show()
  \<close>
\<close>

definition mars_ext_c27 :: "stmt list" where
  "mars_ext_c27 =
    [Assign ''fig'' [Call Pygmt ''Figure''],
     Expr [Call Pygmt ''Figure.grdimage''],
     Assign ''zhurong'' [],
     Assign ''Olympus'' [Operator Builtin ''-''],
     Expr
         [Call Pygmt ''Figure.plot'',
          Subscript Builtin ''list'',
          Subscript Builtin ''list''],
     Expr
         [Call Pygmt ''Figure.text'',
          Subscript Builtin ''list'',
          Operator Builtin ''+'',
          Subscript Builtin ''list'',
          Operator Builtin ''+''],
     Expr
         [Call Pygmt ''Figure.text'',
          Subscript Builtin ''list'',
          Subscript Builtin ''list''],
     Expr [Call Pygmt ''Figure.colorbar''],
     Expr [Call Pygmt ''Figure.show'']]"

text \<open>The code cells of the notebook, in order.\<close>

definition mars_ext_cells :: "stmt list list" where
  "mars_ext_cells =
    [mars_ext_c2, mars_ext_c3, mars_ext_c5, mars_ext_c7, mars_ext_c9, mars_ext_c11,
     mars_ext_c13, mars_ext_c15, mars_ext_c17, mars_ext_c19, mars_ext_c21,
     mars_ext_c23, mars_ext_c25, mars_ext_c27]"

subsection \<open>The notebook Making some Mars maps with pygmt\<close>

text \<open>
  The notebook of the file \<^verbatim>\<open>unnamed/part_000\<close>, after the README.
\<close>

text \<open>
  Cell 2 (lines 90 to 95):
  \<^verbatim>\<open>
  # Also, if you are in colab or trying from your jupyter, you will need the Mars Topography (MOLA) already in Netcdf
  # a copy of the original file distributed from the Mars Climate Database,
  # from the European Space Agency under ESTEC contract 11369/95/NL/JG(SC) and Centre National D'Etude Spatial
  # is on GitHub.

  !wget https://github.com/andrebelem/PlanetaryMaps/raw/v1.0/mola32.nc
  \<close>
\<close>

definition mars_c2 :: "stmt list" where
  "mars_c2 =
    [Shell ''wget'']"

text \<open>
  Cell 3 (lines 105 to 108):
  \<^verbatim>\<open>
  import xarray as xr

  dset_mars = xr.open_dataset('mola32.nc')
  dset_mars
  \<close>
\<close>

definition mars_c3 :: "stmt list" where
  "mars_c3 =
    [Import ''xarray'',
     Assign ''dset_mars'' [Call Xarray ''open_dataset''],
     Expr []]"

text \<open>
  Cell 5 (lines 126 to 129):
  \<^verbatim>\<open>
  import pygmt

  dset_mars_topo = dset_mars.alt.astype(float)
  dset_mars_topo = pygmt.grdsample(grid=dset_mars_topo, translate=True, spacing=[1,1])
  \<close>
\<close>

definition mars_c5 :: "stmt list" where
  "mars_c5 =
    [Import ''pygmt'',
     Assign ''dset_mars_topo'' [Call Xarray ''DataArray.astype''],
     Assign ''dset_mars_topo'' [Call Pygmt ''grdsample'']]"

text \<open>
  Cell 7 (lines 149 to 154):
  \<^verbatim>\<open>
  fig = pygmt.Figure()

  fig.grdimage(grid=dset_mars_topo,region='g',frame=True,projection='W12c')
  fig.colorbar(frame=['a5000','x+lElevation','y+lm'])

  fig.show()
  \<close>
\<close>

definition mars_c7 :: "stmt list" where
  "mars_c7 =
    [Assign ''fig'' [Call Pygmt ''Figure''],
     Expr [Call Pygmt ''Figure.grdimage''],
     Expr [Call Pygmt ''Figure.colorbar''],
     Expr [Call Pygmt ''Figure.show'']]"

text \<open>
  Cell 9 (lines 172 to 173):
  \<^verbatim>\<open>
  dset_olympus = dset_mars.sel(latitude=slice(25,13),longitude=slice(210,240)).alt.astype(float)
  dset_olympus.plot()
  \<close>
\<close>

definition mars_c9 :: "stmt list" where
  "mars_c9 =
    [Assign ''dset_olympus''
         [Call Xarray ''Dataset.sel'',
          Call Builtin ''slice'',
          Call Builtin ''slice'',
          Call Xarray ''DataArray.astype''],
     Expr [Call Xarray ''DataArray.plot'']]"

text \<open>
  Cell 11 (lines 191 to 212):
  \<^verbatim>\<open>
  fig = pygmt.Figure()

  fig.grdview(grid=dset_olympus,
             region=[210,240,13,25,-5000,23000],
             surftype='s',
             projection='M12c',
             perspective=[150,45],
             zsize='4c',
             frame=['xa5f1','ya5f1','z5000+lmeters','wSEnZ'],shading='+a50+nt1')

  bounds = [[210,13],
           [210,25],
           [240,25],
           [240,13],
           [210,13]]

  fig.colorbar(perspective=True,frame=['a5000','x+lElevation','y+lm'])
  with fig.inset(position='JTR+w3.5c+o0.2c',margin=0,box=None):
      fig.grdimage(grid=dset_mars_topo,region='g',frame=True,projection='W3.5c')
      fig.plot(bounds, pen='1p,red')

  fig.show()
  \<close>
\<close>

definition mars_c11 :: "stmt list" where
  "mars_c11 =
    [Assign ''fig'' [Call Pygmt ''Figure''],
     Expr [Call Pygmt ''Figure.grdview''],
     Assign ''bounds'' [],
     Expr [Call Pygmt ''Figure.colorbar''],
     With [Call Pygmt ''Figure.inset'']
       [Expr [Call Pygmt ''Figure.grdimage''],
        Expr [Call Pygmt ''Figure.plot'']],
     Expr [Call Pygmt ''Figure.show'']]"

text \<open>The code cells of the notebook, in order.\<close>

definition mars_cells :: "stmt list list" where
  "mars_cells =
    [mars_c2, mars_c3, mars_c5, mars_c7, mars_c9, mars_c11]"

subsection \<open>The notebook Integration with the scientific Python ecosystem\<close>

text \<open>
  The notebook of the file \<^verbatim>\<open>unnamed/part_001\<close>.
\<close>

text \<open>
  Cell 2 (lines 43 to 44):
  \<^verbatim>\<open>
  import pygmt
  import geopandas as gpd
  \<close>
\<close>

definition ecosystem_c2 :: "stmt list" where
  "ecosystem_c2 =
    [Import ''pygmt'',
     Import ''geopandas'']"

text \<open>
  Cell 4 (lines 62 to 63):
  \<^verbatim>\<open>
  world = gpd.read_file(gpd.datasets.get_path('naturalearth_lowres'))
  world.head()
  \<close>
\<close>

definition ecosystem_c4 :: "stmt list" where
  "ecosystem_c4 =
    [Assign ''world''
         [Call Geopandas ''read_file'',
          Call Geopandas ''datasets.get_path''],
     Expr [Call Geopandas ''GeoDataFrame.head'']]"

text \<open>
  Cell 6 (lines 81 to 87):
  \<^verbatim>\<open>
  # Calculate the populations in millions per capita
  world = world[(world.pop_est>0) & (world.name!="Antarctica")]
  world['pop_est'] = world.pop_est * 1e-6

  # Find the range of data values for creating a colormap
  cmap_bounds = pygmt.info(data=world['pop_est'], per_column=True)
  cmap_bounds
  \<close>
\<close>

definition ecosystem_c6 :: "stmt list" where
  "ecosystem_c6 =
    [Assign ''world''
         [Subscript Geopandas ''GeoDataFrame'',
          Operator Pandas ''>'',
          Operator Pandas ''&'',
          Operator Pandas ''!=''],
     SetItem ''world''
         [Subscript Geopandas ''GeoDataFrame'',
          Operator Pandas ''*''],
     Assign ''cmap_bounds'' [Call Pygmt ''info'', Subscript Geopandas ''GeoDataFrame''],
     Expr []]"

text \<open>
  Cell 8 (lines 105 to 119):
  \<^verbatim>\<open>
  # Create an instance of the pygmt.Figure class
  fig = pygmt.Figure()
  # Create a colormap for the figure
  pygmt.makecpt(cmap="bilbao", series=cmap_bounds)
  # Create a basemap
  fig.basemap(region="d", projection="H15c", frame=True)
  # Plot the GeoDataFrame
  # - Use `close=True` to specify that the polygons should be forced closed
  # - Plot the polygon outlines with a 1 point, black pen
  # - Set that the color should be based on the `pop_est` using the `color, `cmap`, and `aspatial` parameters
  fig.plot(data=world, pen="1p,black", close=True, color="+z", cmap=True, aspatial="Z=pop_est")
  # Add a colorbar
  fig.colorbar(position="JMR", frame='a200+lPopulation (millions)')
  # Display the output
  fig.show()
  \<close>
\<close>

definition ecosystem_c8 :: "stmt list" where
  "ecosystem_c8 =
    [Assign ''fig'' [Call Pygmt ''Figure''],
     Expr [Call Pygmt ''makecpt''],
     Expr [Call Pygmt ''Figure.basemap''],
     Expr [Call Pygmt ''Figure.plot''],
     Expr [Call Pygmt ''Figure.colorbar''],
     Expr [Call Pygmt ''Figure.show'']]"

text \<open>
  Cell 11 (lines 156 to 159):
  \<^verbatim>\<open>
  import panel as pn
  import xarray as xr
  import pygmt
  pn.extension()
  \<close>
\<close>

definition ecosystem_c11 :: "stmt list" where
  "ecosystem_c11 =
    [Import ''panel'',
     Import ''xarray'',
     Import ''pygmt'',
     Expr [Call Panel ''extension'']]"

text \<open>
  Cell 12 (lines 169 to 173):
  \<^verbatim>\<open>
  # Download the dataset from the IRI Data Library
  url = 'https://iridl.ldeo.columbia.edu/SOURCES/.NOAA/.NODC/.WOA09/.Grid-1x1/.Annual/.temperature/.t_an/data.nc'
  netcdf_file = pygmt.which(fname=url, download=True)
  woa_temp = xr.open_dataset(netcdf_file).isel(time=0)
  woa_temp
  \<close>
\<close>

definition ecosystem_c12 :: "stmt list" where
  "ecosystem_c12 =
    [Assign ''url'' [],
     Assign ''netcdf_file'' [Call Pygmt ''which''],
     Assign ''woa_temp'' [Call Xarray ''open_dataset'', Call Xarray ''Dataset.isel''],
     Expr []]"

text \<open>
  Cell 13 (lines 183 to 186):
  \<^verbatim>\<open>
  # Make a static plot of sea surface temperature
  fig = pygmt.Figure()
  fig.grdimage(grid=woa_temp.t_an.sel(depth=0), cmap="vik", projection="R15c", frame=True)
  fig.show()
  \<close>
\<close>

definition ecosystem_c13 :: "stmt list" where
  "ecosystem_c13 =
    [Assign ''fig'' [Call Pygmt ''Figure''],
     Expr
         [Call Pygmt ''Figure.grdimage'',
          Call Xarray ''DataArray.sel''],
     Expr [Call Pygmt ''Figure.show'']]"

text \<open>
  Cell 14 (lines 196 to 197):
  \<^verbatim>\<open>
  # Make a panel widget for controlling the depth plotted
  depth_slider = pn.widgets.DiscreteSlider(name='Depth (m)', options=woa_temp.depth.values.astype(int).tolist(), value=0)
  \<close>
\<close>

definition ecosystem_c14 :: "stmt list" where
  "ecosystem_c14 =
    [Assign ''depth_slider''
         [Call Panel ''widgets.DiscreteSlider'',
          Call Numpy ''ndarray.astype'',
          Call Numpy ''ndarray.tolist'']]"

text \<open>
  Cell 15 (lines 207 to 215):
  \<^verbatim>\<open>
  # Make a function for plotting the depth slice with PyGMT

  @pn.depends(depth=depth_slider)
  def view(depth: int):
      fig = pygmt.Figure()
      pygmt.makecpt(cmap="vik", series=[-2,30])
      fig.grdimage(grid=woa_temp.t_an.sel(depth=depth), cmap=True, projection="R15c", frame=True)
      fig.colorbar(frame="a5")
      return fig
  \<close>
  The decorator is called when the cell runs, the body when the slider moves.
\<close>

definition ecosystem_c15 :: "stmt list" where
  "ecosystem_c15 =
    [Def ''view'' [Call Panel ''depends'']
       [Assign ''fig'' [Call Pygmt ''Figure''],
        Expr [Call Pygmt ''makecpt''],
        Expr
            [Call Pygmt ''Figure.grdimage'',
             Call Xarray ''DataArray.sel''],
        Expr [Call Pygmt ''Figure.colorbar''],
        Return []]]"

text \<open>
  Cell 17 (line 241):
  \<^verbatim>\<open>
  pn.Column(depth_slider, view)
  \<close>
\<close>

definition ecosystem_c17 :: "stmt list" where
  "ecosystem_c17 =
    [Expr [Call Panel ''Column'']]"

text \<open>The code cells of the notebook, in order.\<close>

definition ecosystem_cells :: "stmt list list" where
  "ecosystem_cells =
    [ecosystem_c2, ecosystem_c4, ecosystem_c6, ecosystem_c8, ecosystem_c11,
     ecosystem_c12, ecosystem_c13, ecosystem_c14, ecosystem_c15, ecosystem_c17]"

subsection \<open>All code cells, and what a cell does\<close>

definition code_cells :: "stmt list list" where
  "code_cells =
     first_figure_cells @ lidar_cells @ mars_ext_cells @ mars_cells @ ecosystem_cells"

text \<open>The plotting and GIS library and the data-wrangling libraries of the notebooks.\<close>

definition listed_libraries :: "library list" where
  "listed_libraries = [Pygmt, Geopandas, Xarray, Pandas, Laspy, Rioxarray, Panel]"

definition invokes_listed :: "stmt list \<Rightarrow> bool" where
  "invokes_listed cell = list_ex (\<lambda>u. library_of u \<in> set listed_libraries) (uses_of cell)"

text \<open>
  A statement that invokes nothing and computes nothing: an import, the assignment of a
  literal, the display of a variable, a shell command, a magic command.
\<close>

fun inert :: "stmt \<Rightarrow> bool" where
  "inert (Import m) = True"
| "inert (Assign v us) = (us = [])"
| "inert (Expr us) = (us = [])"
| "inert (Shell c) = True"
| "inert (Magic c) = True"
| "inert s = False"

text \<open>The calls among the operations of an expression.\<close>

fun is_call :: "use \<Rightarrow> bool" where
  "is_call (Call l n) = True"
| "is_call u = False"




text \<open>How often the cells of a notebook invoke an operation.\<close>

definition occurrences :: "use \<Rightarrow> stmt list list \<Rightarrow> nat" where
  "occurrences u cells = count_list (concat (map uses_of cells)) u"


text \<open>
  The callables of the notebooks that draw on, lay out, show or save a figure: the class
  \<^verbatim>\<open>pygmt.Figure\<close> and its methods, \<^verbatim>\<open>pygmt.makecpt\<close> (the colour palette of the following
  plots) and the \<^verbatim>\<open>plot\<close> method of an \<^verbatim>\<open>xarray.DataArray\<close> (a matplotlib image).
\<close>

definition plotting_interface :: "use list" where
  "plotting_interface =
     [Call Pygmt ''Figure'', Call Pygmt ''Figure.basemap'', Call Pygmt ''Figure.coast'',
      Call Pygmt ''Figure.colorbar'', Call Pygmt ''Figure.grdimage'',
      Call Pygmt ''Figure.grdview'', Call Pygmt ''Figure.inset'', Call Pygmt ''Figure.plot'',
      Call Pygmt ''Figure.savefig'', Call Pygmt ''Figure.set_panel'',
      Call Pygmt ''Figure.show'', Call Pygmt ''Figure.subplot'', Call Pygmt ''Figure.text'',
      Call Pygmt ''makecpt'', Call Xarray ''DataArray.plot'']"

text \<open>
  The other callables of the notebooks: reading and downloading data, table and array
  handling, gridding, widgets and dashboard layout, file export, and built-in functions.
\<close>

definition other_interface :: "use list" where
  "other_interface =
     [Call Pygmt ''which'', Call Pygmt ''info'', Call Pygmt ''blockmedian'',
      Call Pygmt ''surface'', Call Pygmt ''grdsample'',
      Call Pygmt ''datasets.load_sample_data'', Call Pygmt ''datasets.load_earth_relief'',
      Call Geopandas ''read_file'', Call Geopandas ''datasets.get_path'',
      Call Geopandas ''GeoDataFrame.head'',
      Call Laspy ''read'', Call Laspy ''ScaledArrayView.scaled_array'',
      Call Pandas ''DataFrame'', Call Pandas ''DataFrame.append'',
      Call Pandas ''DataFrame.describe'', Call Pandas ''DataFrame.query'',
      Call Pandas ''Series.min'', Call Pandas ''Series.max'',
      Call Xarray ''open_dataset'', Call Xarray ''Dataset.sel'', Call Xarray ''Dataset.isel'',
      Call Xarray ''DataArray.sel'', Call Xarray ''DataArray.astype'',
      Call Numpy ''ndarray.astype'', Call Numpy ''ndarray.tolist'',
      Call Rioxarray ''rio.to_raster'',
      Call Panel ''extension'', Call Panel ''widgets.DiscreteSlider'',
      Call Panel ''depends'', Call Panel ''Column'',
      Call Builtin ''print'', Call Builtin ''len'', Call Builtin ''slice'']"

definition plots :: "use \<Rightarrow> bool" where
  "plots u = (u \<in> set plotting_interface)"

text \<open>
  Failure handling: a statement that catches, raises or asserts, or that branches or loops
  on a condition, at any depth.
\<close>

fun failure_handling :: "stmt \<Rightarrow> bool" where
  "failure_handling (Try body handlers final) = True"
| "failure_handling (Raise us) = True"
| "failure_handling (Assert us) = True"
| "failure_handling (If us body orelse) = True"
| "failure_handling (While us body) = True"
| "failure_handling (For v us body) = list_ex failure_handling body"
| "failure_handling (With us body) = list_ex failure_handling body"
| "failure_handling (Def f us body) = list_ex failure_handling body"
| "failure_handling s = False"

text \<open>A statement without a body.\<close>

fun simple :: "stmt \<Rightarrow> bool" where
  "simple (Import m) = True"
| "simple (Assign v us) = True"
| "simple (SetItem v us) = True"
| "simple (Expr us) = True"
| "simple (Return us) = True"
| "simple (Shell c) = True"
| "simple (Magic c) = True"
| "simple s = False"

text \<open>
  Straight-line code: every statement runs once, in order. A \<^verbatim>\<open>for\<close> loop is admitted
  when its body is a sequence of simple statements; a \<^verbatim>\<open>with\<close> block and a function
  definition do not branch, and are straight-line when their bodies are.
\<close>

fun straight_line :: "stmt \<Rightarrow> bool" where
  "straight_line (For v us body) = list_all simple body"
| "straight_line (With us body) = list_all straight_line body"
| "straight_line (Def f us body) = list_all straight_line body"
| "straight_line (While us body) = False"
| "straight_line (If us body orelse) = False"
| "straight_line (Try body handlers final) = False"
| "straight_line (Raise us) = False"
| "straight_line (Assert us) = False"
| "straight_line s = True"

text \<open>The loops of a statement, at any depth.\<close>

fun loops :: "stmt \<Rightarrow> nat" where
  "loops (For v us body) = Suc (sum_list (map loops body))"
| "loops (While us body) = Suc (sum_list (map loops body))"
| "loops (If us body orelse) = sum_list (map loops body) + sum_list (map loops orelse)"
| "loops (With us body) = sum_list (map loops body)"
| "loops (Try body handlers final) =
     sum_list (map loops body) + sum_list (map loops handlers) + sum_list (map loops final)"
| "loops (Def f us body) = sum_list (map loops body)"
| "loops s = 0"

text \<open>
  The context managers a statement enters: the operations of the context expression of
  every \<^verbatim>\<open>with\<close> block, at any depth. Entering and leaving the block is where Python
  acquires and releases what the manager stands for.
\<close>

fun contexts :: "stmt \<Rightarrow> use list" where
  "contexts (With us body) = us @ concat (map contexts body)"
| "contexts (For v us body) = concat (map contexts body)"
| "contexts (While us body) = concat (map contexts body)"
| "contexts (If us body orelse) = concat (map contexts body) @ concat (map contexts orelse)"
| "contexts (Try body handlers final) =
     concat (map contexts body) @ concat (map contexts handlers)
       @ concat (map contexts final)"
| "contexts (Def f us body) = concat (map contexts body)"
| "contexts s = []"

text \<open>
  The layout contexts of a pygmt figure: an inset, a grid of subplots, one panel of it.
  They bracket plotting calls and hold no file, connection or lock.
\<close>

definition figure_contexts :: "use list" where
  "figure_contexts =
     [Call Pygmt ''Figure.inset'', Call Pygmt ''Figure.subplot'',
      Call Pygmt ''Figure.set_panel'']"

text \<open>
  The cells that fetch a remote file: \<^verbatim>\<open>pygmt.which(..., download=True)\<close> and the shell
  command \<^verbatim>\<open>wget\<close>.
\<close>

definition downloads :: "stmt list \<Rightarrow> bool" where
  "downloads cell =
     (Call Pygmt ''which'' \<in> set (uses_of cell) \<or> Shell ''wget'' \<in> set cell)"

section \<open>Tabular data\<close>

text \<open>
  A \<^verbatim>\<open>pandas.DataFrame\<close> is modelled as the list of its rows, in index order, a row as a
  record of its columns. The operations the notebooks apply to a table are those of
  pandas, taken with the meaning its documentation gives them.
\<close>

subsection \<open>The point cloud of the LiDAR notebook\<close>

text \<open>
  \<^verbatim>\<open>
  df = pd.DataFrame(
      data={
          "x": lazdata.x.scaled_array(),
          "y": lazdata.y.scaled_array(),
          "z": lazdata.z.scaled_array(),
          "classification": lazdata.classification,
      }
  )
  \<close>
  The coordinates are carried, never computed with, so a real number stands for each; the
  classification is the small unsigned code of the LAS point record.
\<close>

record lidar_point =
  x :: real
  y :: real
  z :: real
  classification :: nat

text \<open>
  Python's \<^verbatim>\<open>range(start, stop, step)\<close> for a positive step: the positions a slice
  \<^verbatim>\<open>[start:stop:step]\<close> visits. A zero step raises \<^verbatim>\<open>ValueError\<close> in Python; no slice
  of the notebooks has one, and the function returns no position there.
\<close>

function py_range :: "nat \<Rightarrow> nat \<Rightarrow> nat \<Rightarrow> nat list" where
  "py_range start stop step =
     (if step = 0 \<or> stop \<le> start then [] else start # py_range (start + step) stop step)"
  by pat_completeness auto
termination
  by (relation "measure (\<lambda>(start, stop, step). stop - start)") auto

declare py_range.simps [simp del]

text \<open>
  \<^verbatim>\<open>df.iloc[::step]\<close>: both slice bounds are omitted, so the positions run from 0 to
  \<^verbatim>\<open>len(df)\<close>, and the rows at those positions are taken in that order.
\<close>

definition iloc_step :: "'a list \<Rightarrow> nat \<Rightarrow> 'a list" where
  "iloc_step df step = map (\<lambda>i. df ! i) (py_range 0 (length df) step)"

text \<open>
  \<^verbatim>\<open>
  df_filtered = df.iloc[::20]
  \<close>
\<close>

definition df_filtered :: "'a list \<Rightarrow> 'a list" where
  "df_filtered df = iloc_step df 20"

text \<open>
  \<^verbatim>\<open>
  df = df.query(expr="classification != 18")
  \<close>
  \<^verbatim>\<open>DataFrame.query\<close> evaluates the expression on every row and returns the rows where
  it is true, in their order.
\<close>

definition query_classification :: "'a lidar_point_scheme list \<Rightarrow> 'a lidar_point_scheme list" where
  "query_classification df = filter (\<lambda>row. classification row \<noteq> 18) df"

subsection \<open>64-bit floating point\<close>













subsection \<open>The world table of the ecosystem notebook\<close>







section \<open>The Mars notebook: region, cutout and bounds polygon\<close>






section \<open>Properties\<close>

subsection \<open>Every n-th row\<close>

lemma ceil_step:
  "0 < step \<Longrightarrow> 0 < d \<Longrightarrow> (d + (step - 1)) div step = Suc ((d - step + (step - 1)) div step)"
proof -
  assume s: "0 < step" and d: "0 < (d::nat)"
  have ge: "step \<le> d + (step - 1)" using d by arith
  have a: "(d + (step - 1)) div step = Suc ((d + (step - 1) - step) div step)"
    using s ge by (simp add: le_div_geq)
  show ?thesis
  proof (cases "step \<le> d")
    case True
    then have "d + (step - 1) - step = d - step + (step - 1)" by arith
    with a show ?thesis by simp
  next
    case False
    then have "(d + (step - 1) - step) div step = 0" using s by simp
    moreover from False have "(d - step + (step - 1)) div step = 0" using s by simp
    ultimately show ?thesis using a by simp
  qed
qed

lemma py_range_length:
  "0 < step \<Longrightarrow> length (py_range start stop step) = (stop - start + (step - 1)) div step"
proof (induction start stop step rule: py_range.induct)
  case (1 start stop step)
  show ?case
  proof (cases "stop \<le> start")
    case True
    with "1.prems" show ?thesis
      by (simp add: py_range.simps [of start stop step])
  next
    case False
    have ih: "length (py_range (start + step) stop step)
                = (stop - (start + step) + (step - 1)) div step"
      using "1.IH" "1.prems" False by simp
    have d: "0 < stop - start" using False by simp
    have e: "stop - (start + step) = stop - start - step" by simp
    have "length (py_range start stop step) = Suc (length (py_range (start + step) stop step))"
      using False "1.prems" by (simp add: py_range.simps [of start stop step])
    also have "\<dots> = Suc ((stop - start - step + (step - 1)) div step)"
      by (simp only: ih e)
    also have "\<dots> = (stop - start + (step - 1)) div step"
      by (rule ceil_step [OF "1.prems" d, symmetric])
    finally show ?thesis .
  qed
qed

lemma py_range_nth:
  "0 < step \<Longrightarrow> k < length (py_range start stop step)
     \<Longrightarrow> py_range start stop step ! k = start + k * step"
proof (induction start stop step arbitrary: k rule: py_range.induct)
  case (1 start stop step)
  from "1.prems" have ns: "\<not> stop \<le> start"
    by (auto simp: py_range.simps [of start stop step])
  have unf: "py_range start stop step = start # py_range (start + step) stop step"
    using ns "1.prems"(1) by (simp add: py_range.simps [of start stop step])
  show ?case
  proof (cases k)
    case 0
    then show ?thesis by (simp add: unf)
  next
    case (Suc j)
    have "j < length (py_range (start + step) stop step)"
      using "1.prems"(2) unf Suc by simp
    then have "py_range (start + step) stop step ! j = start + step + j * step"
      using "1.IH" ns "1.prems"(1) by simp
    then show ?thesis by (simp add: unf Suc)
  qed
qed

lemma py_range_bound:
  "0 < step \<Longrightarrow> i \<in> set (py_range start stop step) \<Longrightarrow> i < stop"
proof (induction start stop step rule: py_range.induct)
  case (1 start stop step)
  from "1.prems" have ns: "\<not> stop \<le> start"
    by (auto simp: py_range.simps [of start stop step])
  have unf: "py_range start stop step = start # py_range (start + step) stop step"
    using ns "1.prems"(1) by (simp add: py_range.simps [of start stop step])
  from "1.prems"(2) unf have "i = start \<or> i \<in> set (py_range (start + step) stop step)"
    by simp
  then show ?case
    using "1.IH" ns "1.prems"(1) by auto
qed

text \<open>
  C8: \<^verbatim>\<open>df.iloc[::20]\<close> returns the rows of \<open>df\<close> at the positions 0, 20, 40, ... below
  \<open>len(df)\<close>, in that order and unchanged; it has \<open>ceiling(len(df) / 20)\<close> rows, so it is
  not empty when \<open>df\<close> is not.
\<close>

theorem df_filtered_every_20th:
  "length (df_filtered df) = (length df + 19) div 20
   \<and> (\<forall>k < length (df_filtered df). 20 * k < length df \<and> df_filtered df ! k = df ! (20 * k))
   \<and> (df \<noteq> [] \<longrightarrow> df_filtered df \<noteq> [])"
proof -
  let ?r = "py_range 0 (length df) 20"
  have len: "length (df_filtered df) = (length df + 19) div 20"
    by (simp add: df_filtered_def iloc_step_def py_range_length)
  have nth: "20 * k < length df \<and> df_filtered df ! k = df ! (20 * k)"
    if k: "k < length (df_filtered df)" for k
  proof -
    from k have k': "k < length ?r"
      by (simp add: df_filtered_def iloc_step_def)
    then have pos: "?r ! k = 20 * k"
      by (simp add: py_range_nth)
    have "?r ! k \<in> set ?r" using k' by simp
    then have "?r ! k < length df"
      using py_range_bound [of 20 "?r ! k" 0 "length df"] by simp
    with pos k' show ?thesis
      by (simp add: df_filtered_def iloc_step_def)
  qed
  have ne: "df_filtered df \<noteq> []" if "df \<noteq> []"
  proof -
    from that have "0 < length df" by simp
    then have "0 < (length df + 19) div 20" by arith
    with len show ?thesis by auto
  qed
  from len nth ne show ?thesis by blast
qed

theorem df_filtered_every_20th_witness:
  "length (df_filtered [0 ..< 45]) = 3
   \<and> df_filtered [0 ..< 45] ! 2 = 40
   \<and> df_filtered [0 ..< 45] \<noteq> []"
proof -
  have l: "length (df_filtered [0 ..< 45]) = 3"
    using df_filtered_every_20th [of "[0 ..< 45]"] by simp
  have "df_filtered [0 ..< 45] ! 2 = [0 ..< 45] ! (20 * 2)"
    using df_filtered_every_20th [of "[0 ..< 45]"] l by simp
  then have n: "df_filtered [0 ..< 45] ! 2 = 40"
    by simp
  have "[0 ..< 45] \<noteq> ([] :: nat list)" by simp
  then have "df_filtered [0 ..< 45] \<noteq> []"
    using df_filtered_every_20th [of "[0 ..< 45]"] by blast
  with l n show ?thesis by simp
qed

subsection \<open>The bounds polygon of the Mars notebook\<close>



subsection \<open>Filtering by classification code\<close>

text \<open>
  C3: the query \<^verbatim>\<open>classification != 18\<close> returns exactly the rows of the point cloud
  whose classification is not 18: no row of the result has classification 18, every row
  of another classification is retained, and the result is a subsequence of the input, so
  that its rows are rows of the input, unchanged and in their order, as many as the input
  has rows of another classification.
\<close>

theorem query_classification_exact:
  "(\<forall>row \<in> set (query_classification df). classification row \<noteq> 18)
   \<and> (\<forall>i < length df. classification (df ! i) \<noteq> 18
          \<longrightarrow> df ! i \<in> set (query_classification df))
   \<and> subseq (query_classification df) df
   \<and> length (query_classification df)
       = card {i. i < length df \<and> classification (df ! i) \<noteq> 18}"
proof -
  have a: "\<forall>row \<in> set (query_classification df). classification row \<noteq> 18"
    by (simp add: query_classification_def)
  have b: "\<forall>i < length df. classification (df ! i) \<noteq> 18
             \<longrightarrow> df ! i \<in> set (query_classification df)"
    by (simp add: query_classification_def)
  have c: "subseq (query_classification df) df"
    unfolding query_classification_def by (rule subseq_filter_left)
  have d: "length (query_classification df)
             = card {i. i < length df \<and> classification (df ! i) \<noteq> 18}"
    unfolding query_classification_def by (rule length_filter_conv_card)
  from a b c d show ?thesis by blast
qed

theorem query_classification_exact_witness:
  "\<lparr>x = 7, y = 8, z = 9, classification = 5\<rparr>
     \<in> set (query_classification
         [\<lparr>x = 1, y = 2, z = 3, classification = 2\<rparr>,
          \<lparr>x = 4, y = 5, z = 60, classification = 18\<rparr>,
          \<lparr>x = 7, y = 8, z = 9, classification = 5\<rparr>])
   \<and> subseq
        (query_classification
          [\<lparr>x = 1, y = 2, z = 3, classification = 2\<rparr>,
           \<lparr>x = 4, y = 5, z = 60, classification = 18\<rparr>,
           \<lparr>x = 7, y = 8, z = 9, classification = 5\<rparr>])
        [\<lparr>x = 1, y = 2, z = 3, classification = 2\<rparr>,
         \<lparr>x = 4, y = 5, z = 60, classification = 18\<rparr>,
         \<lparr>x = 7, y = 8, z = 9, classification = 5\<rparr>]"
proof -
  let ?df = "[\<lparr>x = 1, y = 2, z = 3, classification = 2\<rparr>,
      \<lparr>x = 4, y = 5, z = 60, classification = 18\<rparr>,
      \<lparr>x = 7, y = 8, z = 9, classification = (5::nat)\<rparr>]"
  note t = query_classification_exact [of ?df]
  note retained = t [THEN conjunct2, THEN conjunct1, rule_format, of 2]
  note sub = t [THEN conjunct2, THEN conjunct2, THEN conjunct1]
  have "?df ! 2 \<in> set (query_classification ?df)"
    by (rule retained) simp_all
  then have "\<lparr>x = 7, y = 8, z = 9, classification = 5\<rparr> \<in> set (query_classification ?df)"
    by simp
  with sub show ?thesis by blast
qed

subsection \<open>Rounding to binary64\<close>












subsection \<open>The world table after filtering and rescaling\<close>





subsection \<open>What the code cells invoke\<close>

text \<open>
  C1, as stated: every code cell invokes at least one function or method of pygmt,
  geopandas, xarray, pandas, laspy, rioxarray or panel. The code disagrees: cell 8 of
  \<^verbatim>\<open>book/first-figure.ipynb\<close> is the plain assignment
  \<^verbatim>\<open>region = [125, 155, 30, 55]\<close> and invokes nothing.
\<close>

theorem plain_assignment_cell:
  "first_figure_c8 \<in> set code_cells
   \<and> first_figure_c8 = [Assign ''region'' []]
   \<and> uses_of first_figure_c8 = []
   \<and> \<not> invokes_listed first_figure_c8"
  by code_simp

text \<open>
  C1, amended: every code cell either invokes a function, a method, an indexer or an
  operator of one of the seven libraries, or consists solely of imports, assignments of
  literals, displays of a variable, shell commands and magic commands (a cell of comments
  has no statement at all), so that a cell without a library call computes nothing of its
  own. Of the 71 code cells, 14 are of the second kind.
\<close>

theorem cells_invoke_or_inert:
  "(\<forall>cell \<in> set code_cells. invokes_listed cell \<or> list_all inert cell)
   \<and> length code_cells = 71
   \<and> length (filter (\<lambda>cell. \<not> invokes_listed cell) code_cells) = 14"
  unfolding list_all_iff [symmetric] by code_simp

theorem cells_invoke_or_inert_witness:
  "lidar_c15 \<in> set code_cells
   \<and> (invokes_listed lidar_c15 \<or> list_all inert lidar_c15)
   \<and> \<not> list_all inert lidar_c15"
proof -
  have m: "lidar_c15 \<in> set code_cells"
    by code_simp
  have n: "\<not> list_all inert lidar_c15"
    by code_simp
  from cells_invoke_or_inert m have "invokes_listed lidar_c15 \<or> list_all inert lidar_c15"
    by blast
  with m n show ?thesis by blast
qed

text \<open>
  C6: the notebooks invoke each of the four plotting functions: \<^verbatim>\<open>Figure.coast\<close> in cell
  10 of the first-figure notebook, \<^verbatim>\<open>Figure.grdimage\<close> in cell 7 of the Mars notebook,
  \<^verbatim>\<open>Figure.grdview\<close> in cell 34 of the LiDAR notebook and \<^verbatim>\<open>Figure.colorbar\<close> in cell 49
  of the first-figure notebook.
\<close>

theorem four_plotting_functions_invoked:
  "first_figure_c10 \<in> set code_cells
   \<and> Call Pygmt ''Figure.coast'' \<in> set (uses_of first_figure_c10)
   \<and> mars_c7 \<in> set code_cells
   \<and> Call Pygmt ''Figure.grdimage'' \<in> set (uses_of mars_c7)
   \<and> lidar_c34 \<in> set code_cells
   \<and> Call Pygmt ''Figure.grdview'' \<in> set (uses_of lidar_c34)
   \<and> first_figure_c49 \<in> set code_cells
   \<and> Call Pygmt ''Figure.colorbar'' \<in> set (uses_of first_figure_c49)"
  by code_simp

subsection \<open>The steps of the LiDAR workflow\<close>


subsection \<open>Plotting\<close>

text \<open>
  C5, as stated: every plot is made through pygmt, and no cell invokes the plotting
  interface of another library. The code disagrees: cell 9 of the Mars notebook draws the
  cutout with \<^verbatim>\<open>dset_olympus.plot()\<close>, the plotting method of xarray.
\<close>

theorem xarray_plot_cell:
  "mars_c9 \<in> set code_cells
   \<and> Call Xarray ''DataArray.plot'' \<in> set (uses_of mars_c9)
   \<and> plots (Call Xarray ''DataArray.plot'')
   \<and> library_of (Call Xarray ''DataArray.plot'') \<noteq> Pygmt"
  by code_simp

text \<open>
  C5, amended: every call of the notebooks is one of the callables listed as plotting or
  as other, and every plotting call is a call of pygmt (the class \<^verbatim>\<open>Figure\<close>, its methods
  and \<^verbatim>\<open>makecpt\<close>), except the quick look \<^verbatim>\<open>dset_olympus.plot()\<close> of xarray, which the
  two Mars notebooks make once each, in the cell that cuts Olympus Mons out.
\<close>

theorem plotting_through_pygmt:
  "(\<forall>cell \<in> set code_cells. \<forall>u \<in> set (uses_of cell).
      is_call u \<longrightarrow>
        (plots u \<or> u \<in> set other_interface)
        \<and> (plots u \<longrightarrow> library_of u = Pygmt
              \<or> u = Call Xarray ''DataArray.plot'' \<and> (cell = mars_c9 \<or> cell = mars_ext_c13)))
   \<and> occurrences (Call Xarray ''DataArray.plot'') mars_cells = 1
   \<and> occurrences (Call Xarray ''DataArray.plot'') mars_ext_cells = 1
   \<and> occurrences (Call Xarray ''DataArray.plot'') code_cells = 2"
  unfolding list_all_iff [symmetric] by code_simp

theorem plotting_through_pygmt_witness:
  "first_figure_c10 \<in> set code_cells
   \<and> Call Pygmt ''Figure.coast'' \<in> set (uses_of first_figure_c10)
   \<and> is_call (Call Pygmt ''Figure.coast'')
   \<and> plots (Call Pygmt ''Figure.coast'')
   \<and> library_of (Call Pygmt ''Figure.coast'') = Pygmt"
proof -
  have m: "first_figure_c10 \<in> set code_cells"
    by code_simp
  have u: "Call Pygmt ''Figure.coast'' \<in> set (uses_of first_figure_c10)"
    by code_simp
  have c: "is_call (Call Pygmt ''Figure.coast'')"
    by simp
  have n: "Call Pygmt ''Figure.coast'' \<noteq> Call Xarray ''DataArray.plot''"
    by simp
  have o: "Call Pygmt ''Figure.coast'' \<notin> set other_interface"
    by code_simp
  from plotting_through_pygmt m u c
  have "(plots (Call Pygmt ''Figure.coast'') \<or> Call Pygmt ''Figure.coast'' \<in> set other_interface)
        \<and> (plots (Call Pygmt ''Figure.coast'') \<longrightarrow>
              library_of (Call Pygmt ''Figure.coast'') = Pygmt
              \<or> Call Pygmt ''Figure.coast'' = Call Xarray ''DataArray.plot''
                \<and> (first_figure_c10 = mars_c9 \<or> first_figure_c10 = mars_ext_c13))"
    by blast
  with m u c n o show ?thesis by blast
qed

subsection \<open>Failure handling and control flow\<close>

text \<open>
  C7: no code cell handles a failure or manages a resource. No statement, at any depth,
  catches, raises or asserts, or branches or loops on a condition; every cell is
  straight-line code with at most one loop, a \<^verbatim>\<open>for\<close> over simple statements; the only
  blocks entered are the layout contexts of a pygmt figure; and the only built-in
  functions called are \<^verbatim>\<open>print\<close>, \<^verbatim>\<open>len\<close> and \<^verbatim>\<open>slice\<close>, so that nothing is opened or closed
  by a cell. This holds of the five cells that download a remote file as of the others:
  an exception of a library propagates.
\<close>

theorem no_failure_handling:
  "(\<forall>cell \<in> set code_cells.
      \<not> list_ex failure_handling cell
      \<and> list_all straight_line cell
      \<and> sum_list (map loops cell) \<le> 1
      \<and> set (concat (map contexts cell)) \<subseteq> set figure_contexts
      \<and> (\<forall>u \<in> set (uses_of cell). is_call u \<and> library_of u = Builtin \<longrightarrow>
            u \<in> set [Call Builtin ''print'', Call Builtin ''len'', Call Builtin ''slice'']))
   \<and> filter downloads code_cells = [lidar_c5, lidar_c46, mars_ext_c3, mars_c2, ecosystem_c12]
   \<and> sum_list (map (\<lambda>cell. sum_list (map loops cell)) code_cells) = 1"
  unfolding list_all_iff [symmetric] by code_simp

theorem no_failure_handling_witness:
  "lidar_c46 \<in> set code_cells
   \<and> downloads lidar_c46
   \<and> \<not> list_ex failure_handling lidar_c46
   \<and> list_all straight_line lidar_c46
   \<and> sum_list (map loops lidar_c46) = 1
   \<and> lidar_c5 \<in> set code_cells
   \<and> Call Builtin ''print'' \<in> set (uses_of lidar_c5)
   \<and> is_call (Call Builtin ''print'')
   \<and> library_of (Call Builtin ''print'') = Builtin
   \<and> Call Builtin ''print''
        \<in> set [Call Builtin ''print'', Call Builtin ''len'', Call Builtin ''slice'']"
proof -
  have m: "lidar_c46 \<in> set code_cells"
    by code_simp
  have d: "downloads lidar_c46"
    by code_simp
  have l: "sum_list (map loops lidar_c46) = 1"
    by code_simp
  have m5: "lidar_c5 \<in> set code_cells"
    by code_simp
  have u: "Call Builtin ''print'' \<in> set (uses_of lidar_c5)"
    by code_simp
  have c: "is_call (Call Builtin ''print'') \<and> library_of (Call Builtin ''print'') = Builtin"
    by simp
  from no_failure_handling m
  have s: "\<not> list_ex failure_handling lidar_c46 \<and> list_all straight_line lidar_c46"
    by blast
  from no_failure_handling m5 u c
  have "Call Builtin ''print''
          \<in> set [Call Builtin ''print'', Call Builtin ''len'', Call Builtin ''slice'']"
    by blast
  with m d l m5 u c s show ?thesis by blast
qed

end
